theory Spec2Isabelle
  imports Complex_Main "HOL-Library.Multiset" "HOL-Library.Sublist"
begin

section \<open>The notebook \<open>Implicit_ALS_books.ipynb\<close>\<close>

text \<open>
  The repository is one notebook. Its code cells prepare the Book-Crossing ratings for
  \<open>pyspark.mllib.recommendation.ALS.trainImplicit\<close> and query the trained model:

  \<^item> cell 4: \<open>ratings\<close>, the parsed rows \<open>(int(x[0]), str(x[1]), int(x[2]))\<close>
  \<^item> cell 6: \<open>isbns\<close>, \<open>isbns_with_indices\<close>, \<open>reordered_ratings\<close>, \<open>joined\<close>
  \<^item> cell 7: \<open>ratings_int_nice\<close>
  \<^item> cell 8: \<open>ratings_ones\<close>
  \<^item> cell 9: \<open>model = ALS.trainImplicit(ratings_ones, rank=5, iterations=3, alpha=0.99)\<close>
  \<^item> cell 10: \<open>users_books\<close>, \<open>books_for_them\<close>
  \<^item> cell 11: \<open>unseen\<close>
  \<^item> cell 12: \<open>predictions = model.predictAll(unseen)\<close>
  \<^item> cell 14: \<open>predictions.takeOrdered(20, lambda x: -x[2])\<close>

  An RDD is modelled as the list of its elements in partition order. The operations of
  the Spark API the notebook calls (\<open>map\<close>, \<open>filter\<close>, \<open>distinct\<close>, \<open>zipWithIndex\<close>,
  \<open>join\<close>, \<open>takeOrdered\<close>) are modelled by list functions. Where Spark fixes no order
  (\<open>distinct\<close>, \<open>join\<close>, \<open>predictAll\<close>) the theorems hold for every order or speak of
  elements and their counts only. The shell commands of cells 2 and 3 and the parse of
  cell 4 are not modelled: the observations are the parsed rows. The alternating solver
  behind \<open>trainImplicit\<close> and the scoring behind \<open>predictAll\<close> are code of the Spark
  library, not of the notebook, and have no definition here.
\<close>

subsection \<open>Rows\<close>

text \<open>
  A row of \<open>ratings\<close> is \<open>(user id, ISBN, rating)\<close>: two Python ints and a string. The
  rows handed to the trainer are \<open>(user id, ISBN index, strength)\<close>.
\<close>

type_synonym rating_row = "int \<times> string \<times> int"
type_synonym indexed_row = "int \<times> nat \<times> int"

subsection \<open>Cell 6: densifying the ISBNs\<close>

text \<open>
  \<open>isbns = ratings.map(lambda x: x[1]).distinct()\<close>. Spark fixes no order for the
  result of \<open>distinct\<close>: it is some list without repetitions that holds the same
  elements. \<open>isbns\<close> computes one such list with \<open>remdups\<close>, and the others are its
  rearrangements; \<open>isbns_of ratings ds\<close> says that \<open>ds\<close> is such a result for \<open>ratings\<close>.
\<close>

definition distinct_result :: "'a list \<Rightarrow> 'a list \<Rightarrow> bool" where
  "distinct_result xs ds \<longleftrightarrow> distinct ds \<and> set ds = set xs"

definition isbns_of :: "rating_row list \<Rightarrow> string list \<Rightarrow> bool" where
  "isbns_of ratings ds \<longleftrightarrow> distinct_result (map (\<lambda>(user, isbn, rating). isbn) ratings) ds"

definition isbns :: "rating_row list \<Rightarrow> string list" where
  "isbns ratings = remdups (map (\<lambda>(user, isbn, rating). isbn) ratings)"

text \<open>\<open>zipWithIndex\<close> pairs the elements with their positions, counted from 0.\<close>

definition zipWithIndex :: "'a list \<Rightarrow> ('a \<times> nat) list" where
  "zipWithIndex xs = zip xs [0 ..< length xs]"

definition isbns_with_indices :: "string list \<Rightarrow> (string \<times> nat) list" where
  "isbns_with_indices ds = zipWithIndex ds"

definition reordered_ratings :: "rating_row list \<Rightarrow> (string \<times> (int \<times> int)) list" where
  "reordered_ratings ratings = map (\<lambda>(user, isbn, rating). (isbn, (user, rating))) ratings"

text \<open>
  \<open>join\<close> is the inner join on the key: one output row for every pair of a left row and
  a right row with equal keys.
\<close>

definition join :: "('k \<times> 'v) list \<Rightarrow> ('k \<times> 'w) list \<Rightarrow> ('k \<times> ('v \<times> 'w)) list" where
  "join xs ys =
     concat (map (\<lambda>(k, v). map (\<lambda>(k', w). (k, (v, w))) (filter (\<lambda>(k', w). k' = k) ys)) xs)"

definition joined :: "string list \<Rightarrow> rating_row list \<Rightarrow> (string \<times> ((int \<times> int) \<times> nat)) list" where
  "joined ds ratings = join (reordered_ratings ratings) (isbns_with_indices ds)"

subsection \<open>Cells 7 and 8: the rows for the trainer\<close>

definition ratings_int_nice :: "string list \<Rightarrow> rating_row list \<Rightarrow> indexed_row list" where
  "ratings_int_nice ds ratings =
     map (\<lambda>(isbn, ((user, rating), idx)). (user, idx, rating)) (joined ds ratings)"

definition ratings_ones :: "string list \<Rightarrow> rating_row list \<Rightarrow> indexed_row list" where
  "ratings_ones ds ratings =
     map (\<lambda>(user, idx, rating). (user, idx, 1)) (ratings_int_nice ds ratings)"

subsection \<open>Cells 10 and 11: the candidates for one user\<close>

text \<open>
  \<open>users_books = ratings_ones.filter(lambda x: x[0] is 8).map(lambda x: x[1])\<close> and
  \<open>books_for_them = users_books.collect()\<close>. The notebook writes the user as the
  literal 8, for which \<open>is\<close> on Python ints is equality; here the user is the
  argument \<open>u\<close>.
\<close>

definition users_books :: "int \<Rightarrow> indexed_row list \<Rightarrow> nat list" where
  "users_books u rows = map (\<lambda>(u', i, s). i) (filter (\<lambda>(u', i, s). u' = u) rows)"

definition books_for_them :: "int \<Rightarrow> string list \<Rightarrow> rating_row list \<Rightarrow> nat list" where
  "books_for_them u ds ratings = users_books u (ratings_ones ds ratings)"

definition unseen :: "int \<Rightarrow> (string \<times> nat) list \<Rightarrow> nat list \<Rightarrow> (int \<times> nat) list" where
  "unseen u indices seen =
     map (\<lambda>x. (u, x)) (filter (\<lambda>x. x \<notin> set seen) (map (\<lambda>(b, i). i) indices))"

subsection \<open>Cells 12 and 14: predictions and their ranking\<close>

text \<open>
  A prediction is Spark's \<open>Rating(user, product, rating)\<close>. \<open>model.predictAll(unseen)\<close>
  is computed by the library from the trained factors; what the notebook relies on is
  that every prediction returned is for one of the pairs that were passed in, in an
  order Spark does not fix. The rating is a Python float; NaN is left out.
\<close>

record Rating =
  user :: int
  product :: nat
  rating :: real

definition predictAll_of :: "(int \<times> nat) list \<Rightarrow> Rating list \<Rightarrow> bool" where
  "predictAll_of pairs predictions \<longleftrightarrow>
     list_all (\<lambda>p. (user p, product p) \<in> set pairs) predictions"

text \<open>
  \<open>takeOrdered(num, key)\<close> returns the \<open>num\<close> smallest elements by \<open>key\<close>. PySpark
  computes it with \<open>heapq.nsmallest(num, ..., key)\<close>, documented as
  \<open>sorted(iterable, key=key)[:num]\<close>: a stable sort, so that elements with equal keys
  stay in the order of the RDD.
\<close>

definition takeOrdered :: "nat \<Rightarrow> ('a \<Rightarrow> 'k::linorder) \<Rightarrow> 'a list \<Rightarrow> 'a list" where
  "takeOrdered num key xs = take num (sort_key key xs)"

definition top_predictions :: "nat \<Rightarrow> Rating list \<Rightarrow> Rating list" where
  "top_predictions num predictions = takeOrdered num (\<lambda>x. - rating x) predictions"

subsection \<open>Sizes\<close>

text \<open>
  The notebook's introduction writes \<open>N_u\<close> for the number of users and \<open>N_p\<close> for the
  number of products.
\<close>

definition N_u :: "rating_row list \<Rightarrow> nat" where
  "N_u ratings = card ((\<lambda>(u, b, r). u) ` set ratings)"

definition N_p :: "rating_row list \<Rightarrow> nat" where
  "N_p ratings = card ((\<lambda>(u, b, r). b) ` set ratings)"

subsection \<open>Positions\<close>

text \<open>The position of the first occurrence of an element, to state what the join assigns.\<close>

fun index_of :: "'a list \<Rightarrow> 'a \<Rightarrow> nat" where
  "index_of [] b = 0"
| "index_of (x # xs) b = (if x = b then 0 else Suc (index_of xs b))"

section \<open>What the join assigns\<close>

lemma index_of_less: "b \<in> set ds \<Longrightarrow> index_of ds b < length ds"
  by (induction ds) auto

lemma nth_index_of: "b \<in> set ds \<Longrightarrow> ds ! index_of ds b = b"
  by (induction ds) auto

lemma index_of_nth: "distinct ds \<Longrightarrow> i < length ds \<Longrightarrow> index_of ds (ds ! i) = i"
proof (induction ds arbitrary: i)
  case Nil
  then show ?case by simp
next
  case (Cons d ds)
  show ?case
  proof (cases i)
    case 0
    then show ?thesis by simp
  next
    case (Suc j)
    with Cons.prems have "j < length ds" and "ds ! j \<noteq> d"
      by auto
    with Cons.IH Cons.prems Suc show ?thesis by auto
  qed
qed

lemma index_of_inj: "a \<in> set ds \<Longrightarrow> b \<in> set ds \<Longrightarrow> index_of ds a = index_of ds b \<Longrightarrow> a = b"
  by (metis nth_index_of)

lemma lookup_zip_upt:
  "distinct ds \<Longrightarrow> b \<in> set ds \<Longrightarrow>
   filter (\<lambda>(k', w). k' = b) (zip ds [n ..< n + length ds]) = [(b, n + index_of ds b)]"
proof (induction ds arbitrary: n)
  case Nil
  then show ?case by simp
next
  case (Cons d ds)
  have upt: "[n ..< n + length (d # ds)] = n # [Suc n ..< Suc n + length ds]"
    by (simp add: upt_rec)
  show ?case
  proof (cases "d = b")
    case True
    with Cons.prems have "b \<notin> set ds" by simp
    then have "filter (\<lambda>(k', w). k' = b) (zip ds [Suc n ..< Suc n + length ds]) = []"
      by (auto simp: filter_empty_conv dest: set_zip_leftD)
    with True upt show ?thesis by simp
  next
    case False
    with Cons.prems have "distinct ds" "b \<in> set ds" by auto
    from Cons.IH [OF this, of "Suc n"] False upt show ?thesis by simp
  qed
qed

lemma lookup_isbns_with_indices:
  "distinct ds \<Longrightarrow> b \<in> set ds \<Longrightarrow>
   filter (\<lambda>(k', w). k' = b) (isbns_with_indices ds) = [(b, index_of ds b)]"
  using lookup_zip_upt [of ds b 0] by (simp add: isbns_with_indices_def zipWithIndex_def)

lemma joined_eq:
  assumes "distinct ds" and "\<forall>(u, b, r) \<in> set ratings. b \<in> set ds"
  shows "joined ds ratings =
         map (\<lambda>(u, b, r). (b, ((u, r), index_of ds b))) ratings"
  using assms(2)
proof (induction ratings)
  case Nil
  then show ?case by (simp add: joined_def join_def reordered_ratings_def)
next
  case (Cons x ratings)
  obtain u b r where x: "x = (u, b, r)" by (cases x)
  with Cons.prems have "b \<in> set ds" by simp
  from lookup_isbns_with_indices [OF assms(1) this] Cons x show ?case
    by (simp add: joined_def join_def reordered_ratings_def)
qed

lemma isbns_of_covers:
  "isbns_of ratings ds \<Longrightarrow> \<forall>(u, b, r) \<in> set ratings. b \<in> set ds"
  by (force simp: isbns_of_def distinct_result_def)

lemma isbns_of_distinct: "isbns_of ratings ds \<Longrightarrow> distinct ds"
  by (simp add: isbns_of_def distinct_result_def)

lemma isbns_of_isbns: "isbns_of ratings (isbns ratings)"
  by (simp add: isbns_of_def distinct_result_def isbns_def)

lemma joined_isbns_of:
  "isbns_of ratings ds \<Longrightarrow>
   joined ds ratings =
   map (\<lambda>(u, b, r). (b, ((u, r), index_of ds b))) ratings"
  by (rule joined_eq [OF isbns_of_distinct isbns_of_covers])

lemma ratings_int_nice_eq:
  "isbns_of ratings ds \<Longrightarrow>
   ratings_int_nice ds ratings =
   map (\<lambda>(u, b, r). (u, index_of ds b, r)) ratings"
  by (simp add: ratings_int_nice_def joined_isbns_of case_prod_beta)

lemma ratings_ones_eq:
  "isbns_of ratings ds \<Longrightarrow>
   ratings_ones ds ratings =
   map (\<lambda>(u, b, r). (u, index_of ds b, 1)) ratings"
  by (simp add: ratings_ones_def ratings_int_nice_eq case_prod_beta)

section \<open>The ranking\<close>

lemma unseen_not_seen: "(u', i) \<in> set (unseen u indices seen) \<Longrightarrow> i \<notin> set seen"
  by (auto simp: unseen_def)

lemma set_takeOrdered: "set (takeOrdered num key xs) \<subseteq> set xs"
  using set_take_subset [of num "sort_key key xs"] by (simp add: takeOrdered_def)

lemma sorted_takeOrdered: "sorted (map key (takeOrdered num key xs))"
  by (simp add: takeOrdered_def take_map [symmetric] sorted_wrt_take)

lemma filter_take_prefix: "prefix (filter P (take n xs)) (filter P xs)"
proof -
  have "filter P xs = filter P (take n xs) @ filter P (drop n xs)"
    by (metis append_take_drop_id filter_append)
  then show ?thesis by (simp add: prefix_def)
qed

lemma takeOrdered_stable:
  "prefix (filter (\<lambda>x. key x = k) (takeOrdered num key xs)) (filter (\<lambda>x. key x = k) xs)"
  using filter_take_prefix [of "\<lambda>x. key x = k" num "sort_key key xs"]
  by (simp add: takeOrdered_def sort_key_stable)

section \<open>The claims\<close>

subsection \<open>Densification of the ISBNs\<close>

text \<open>
  Claim C10. The ISBN-to-integer densification is a consistent injective mapping. Let
  \<open>ds\<close> be the ISBNs that cell 6 computes, \<open>isbns ratings\<close>, in whatever order Spark
  delivers them. Then two rows of \<open>joined\<close> carry the same index exactly when they carry
  the same ISBN (one index for all occurrences of an ISBN, different indices for
  different ISBNs); every row of \<open>ratings\<close> has its row in \<open>joined\<close>; and the indices
  assigned, in \<open>joined\<close> as in \<open>isbns_with_indices\<close>, are exactly \<open>0, ..., n - 1\<close> for \<open>n\<close>
  the number of distinct ISBNs.
\<close>

theorem isbn_densification:
  assumes "mset ds = mset (isbns ratings)"
  shows "(\<forall>(b, ((u, r), i)) \<in> set (joined ds ratings).
           \<forall>(b', ((u', r'), i')) \<in> set (joined ds ratings). (i = i') = (b = b'))
       \<and> mset (map (\<lambda>(b, ((u, r), i)). (u, b, r)) (joined ds ratings)) = mset ratings
       \<and> (\<lambda>(b, ((u, r), i)). i) ` set (joined ds ratings)
           = {0 ..< card ((\<lambda>(u, b, r). b) ` set ratings)}
       \<and> (\<lambda>(b, i). i) ` set (isbns_with_indices ds)
           = {0 ..< card ((\<lambda>(u, b, r). b) ` set ratings)}"
proof -
  let ?isbn = "\<lambda>(u :: int, b :: string, r :: int). b"
  have "distinct (isbns ratings)"
    by (simp add: isbns_def)
  with assms have d: "distinct ds"
    by (metis mset_eq_imp_distinct_iff)
  from assms have "set ds = set (isbns ratings)"
    by (rule mset_eq_setD)
  then have s: "set ds = ?isbn ` set ratings"
    by (simp add: isbns_def)
  from d s have of_ds: "isbns_of ratings ds"
    by (simp add: isbns_of_def distinct_result_def)
  have cov: "\<And>u b r. (u, b, r) \<in> set ratings \<Longrightarrow> b \<in> set ds"
    using isbns_of_covers [OF of_ds] by auto
  have len: "length ds = card (?isbn ` set ratings)"
    using d s distinct_card by metis
  have j: "joined ds ratings = map (\<lambda>(u, b, r). (b, ((u, r), index_of ds b))) ratings"
    by (rule joined_isbns_of [OF of_ds])
  have 1: "\<forall>(b, ((u, r), i)) \<in> set (joined ds ratings).
           \<forall>(b', ((u', r'), i')) \<in> set (joined ds ratings). (i = i') = (b = b')"
  proof -
    have "b = b'" if "(u, b, r) \<in> set ratings" "(u', b', r') \<in> set ratings"
      "index_of ds b = index_of ds b'" for u b r u' b' r'
      using that cov index_of_inj by metis
    then show ?thesis unfolding j by auto
  qed
  have 2: "mset (map (\<lambda>(b, ((u, r), i)). (u, b, r)) (joined ds ratings)) = mset ratings"
  proof -
    have "map (\<lambda>(b, ((u, r), i)). (u, b, r)) (joined ds ratings) = ratings"
      unfolding j by (induction ratings) auto
    then show ?thesis by simp
  qed
  have "(\<lambda>(b, ((u, r), i)). i) ` set (joined ds ratings) = index_of ds ` set ds"
    unfolding j s by (force simp: image_iff)
  also have "index_of ds ` set ds = {0 ..< length ds}"
  proof (intro set_eqI iffI)
    fix i assume "i \<in> index_of ds ` set ds"
    then show "i \<in> {0 ..< length ds}" by (auto simp: index_of_less)
  next
    fix i assume "i \<in> {0 ..< length ds}"
    then have "i < length ds" by simp
    with d have "index_of ds (ds ! i) = i" by (rule index_of_nth)
    with \<open>i < length ds\<close> show "i \<in> index_of ds ` set ds"
      by (metis image_eqI nth_mem)
  qed
  finally have 3: "(\<lambda>(b, ((u, r), i)). i) ` set (joined ds ratings)
           = {0 ..< card (?isbn ` set ratings)}"
    by (simp add: len)
  have "(\<lambda>(b, i). i) ` set (isbns_with_indices ds) = snd ` set (zip ds [0 ..< length ds])"
    by (simp add: isbns_with_indices_def zipWithIndex_def case_prod_beta)
  also have "\<dots> = {0 ..< length ds}"
    by (simp flip: set_map)
  finally have 4: "(\<lambda>(b, i). i) ` set (isbns_with_indices ds)
           = {0 ..< card (?isbn ` set ratings)}"
    by (simp add: len)
  from 1 2 3 4 show ?thesis by blast
qed

text \<open>
  The theorem at three rows of the notebook's kind, two of them on the same book: once
  at the list that \<open>isbns\<close> computes for them, and once at the same two ISBNs in the
  opposite order.
\<close>

theorem isbn_densification_witness:
  "isbns [(276725, ''034545104X'', 0), (276727, ''0446520802'', 0), (276725, ''0446520802'', 0)]
     = [''034545104X'', ''0446520802'']
   \<and> mset [''0446520802'', ''034545104X'']
     = mset (isbns [(276725, ''034545104X'', 0), (276727, ''0446520802'', 0),
                    (276725, ''0446520802'', 0)])
   \<and> joined
        (isbns [(276725, ''034545104X'', 0), (276727, ''0446520802'', 0),
                (276725, ''0446520802'', 0)])
        [(276725, ''034545104X'', 0), (276727, ''0446520802'', 0), (276725, ''0446520802'', 0)]
      = [(''034545104X'', ((276725, 0), 0)), (''0446520802'', ((276727, 0), 1)),
         (''0446520802'', ((276725, 0), 1))]
   \<and> (\<lambda>(b, i). i) ` set (isbns_with_indices
         (isbns [(276725, ''034545104X'', 0), (276727, ''0446520802'', 0),
                 (276725, ''0446520802'', 0)]))
       = {0 ..< card ((\<lambda>(u, b, r). b) ` set [(276725 :: int, ''034545104X'', 0 :: int),
            (276727, ''0446520802'', 0), (276725, ''0446520802'', 0)])}
   \<and> (\<lambda>(b, i). i) ` set (isbns_with_indices [''0446520802'', ''034545104X''])
       = {0 ..< card ((\<lambda>(u, b, r). b) ` set [(276725 :: int, ''034545104X'', 0 :: int),
            (276727, ''0446520802'', 0), (276725, ''0446520802'', 0)])}"
proof -
  have e: "isbns [(276725, ''034545104X'', 0), (276727, ''0446520802'', 0),
                  (276725, ''0446520802'', 0)]
     = [''034545104X'', ''0446520802'']"
    by (simp add: isbns_def)
  have h: "mset [''0446520802'', ''034545104X'']
     = mset (isbns [(276725, ''034545104X'', 0), (276727, ''0446520802'', 0),
                    (276725, ''0446520802'', 0)])"
    unfolding e by simp
  have j: "joined
        (isbns [(276725, ''034545104X'', 0), (276727, ''0446520802'', 0),
                (276725, ''0446520802'', 0)])
        [(276725, ''034545104X'', 0), (276727, ''0446520802'', 0), (276725, ''0446520802'', 0)]
      = [(''034545104X'', ((276725, 0), 0)), (''0446520802'', ((276727, 0), 1)),
         (''0446520802'', ((276725, 0), 1))]"
    unfolding e
    by (simp add: joined_def join_def reordered_ratings_def isbns_with_indices_def
        zipWithIndex_def upt_rec)
  note own = isbn_densification [OF refl, THEN conjunct2, THEN conjunct2, THEN conjunct2]
  note other = isbn_densification [OF h, THEN conjunct2, THEN conjunct2, THEN conjunct2]
  show ?thesis
    apply (intro conjI)
        apply (rule e)
       apply (rule h)
      apply (rule j)
     apply (rule own)
    apply (rule other)
    done
qed

subsection \<open>Index bounds\<close>

text \<open>
  Claim C9, as amended. The notebook checks no bound and has no \<open>InvalidIndex\<close>
  failure; nothing is clamped either. The product index of every row handed to the
  trainer is below \<open>N_p\<close> because the join assigned it, and the user ids of the rows
  are the user ids of \<open>ratings\<close>, each as often as it occurs there, unchanged and not
  densified.
\<close>

theorem indices_unchecked:
  assumes "isbns_of ratings ds"
  shows "list_all (\<lambda>(u, i, s). i < N_p ratings) (ratings_ones ds ratings)
       \<and> mset (map (\<lambda>(u, i, s). u) (ratings_ones ds ratings))
           = mset (map (\<lambda>(u, b, r). u) ratings)"
proof -
  have len: "length ds = N_p ratings"
    using assms distinct_card [of ds] by (simp add: isbns_of_def distinct_result_def N_p_def)
  have "list_all (\<lambda>(u, i, s). i < length ds) (ratings_ones ds ratings)"
    using isbns_of_covers [OF assms]
    by (auto simp: ratings_ones_eq [OF assms] list_all_iff index_of_less)
  moreover have "map (\<lambda>(u, i, s). u) (ratings_ones ds ratings) = map (\<lambda>(u, b, r). u) ratings"
    by (simp add: ratings_ones_eq [OF assms] case_prod_beta)
  ultimately show ?thesis by (simp add: len)
qed

theorem indices_unchecked_witness:
  "isbns_of [(276725, ''034545104X'', 0)] [''034545104X'']
   \<and> list_all (\<lambda>(u, i, s). i < N_p [(276725, ''034545104X'', 0)])
        (ratings_ones [''034545104X''] [(276725, ''034545104X'', 0)])
   \<and> mset (map (\<lambda>(u, i, s). u) (ratings_ones [''034545104X''] [(276725, ''034545104X'', 0)]))
      = {#276725#}"
proof -
  have h: "isbns_of [(276725, ''034545104X'', 0)] [''034545104X'']"
    by (auto simp add: isbns_of_def distinct_result_def)
  from indices_unchecked [OF h] h show ?thesis by simp
qed

text \<open>
  Claim C9 as stated fails: with one user, \<open>N_u = 1\<close>, the user id 276725 is not below
  \<open>N_u\<close>, and the rows for the trainer are built all the same, with the id as it is.
\<close>

theorem invalid_index_counterexample:
  "N_u [(276725, ''034545104X'', 0)] = 1 \<and> (276725 :: int) \<ge> 1
   \<and> ratings_ones (isbns [(276725, ''034545104X'', 0)]) [(276725, ''034545104X'', 0)]
      = [(276725, 0, 1)]"
  by (simp add: N_u_def isbns_def ratings_ones_def ratings_int_nice_def joined_def join_def
      reordered_ratings_def isbns_with_indices_def zipWithIndex_def)

subsection \<open>The top of the predictions\<close>

text \<open>
  Claim C5, as amended. For every user \<open>u\<close>, every \<open>k\<close> and every list \<open>seen\<close> of items
  to leave out, and for whatever predictions \<open>predictAll\<close> returns for the pairs of
  \<open>unseen\<close>: \<open>takeOrdered(k, lambda x: -x[2])\<close> returns no item of \<open>seen\<close>, its ratings
  are non-increasing, and predictions of equal rating stay in the order in which
  \<open>predictAll\<close> delivered them (for each rating \<open>s\<close>, the returned predictions of rating
  \<open>s\<close> are an initial segment of those in \<open>predictions\<close>). The item index plays no part
  in the order.
\<close>

theorem top_predictions_ranked:
  assumes "predictAll_of (unseen u (isbns_with_indices ds) seen) predictions"
  shows "list_all (\<lambda>p. product p \<notin> set seen) (top_predictions k predictions)
       \<and> sorted_wrt (\<lambda>p q. rating p \<ge> rating q) (top_predictions k predictions)
       \<and> prefix (filter (\<lambda>p. rating p = s) (top_predictions k predictions))
                 (filter (\<lambda>p. rating p = s) predictions)"
proof -
  have 1: "list_all (\<lambda>p. product p \<notin> set seen) (top_predictions k predictions)"
    unfolding list_all_iff
  proof
    fix p assume "p \<in> set (top_predictions k predictions)"
    then have "p \<in> set predictions"
      using set_takeOrdered [of k "\<lambda>x. - rating x" predictions]
      by (auto simp: top_predictions_def)
    with assms have "(user p, product p) \<in> set (unseen u (isbns_with_indices ds) seen)"
      by (simp add: predictAll_of_def list_all_iff)
    then show "product p \<notin> set seen" by (rule unseen_not_seen)
  qed
  have "sorted (map (\<lambda>p. - rating p) (top_predictions k predictions))"
    unfolding top_predictions_def by (rule sorted_takeOrdered)
  then have 2: "sorted_wrt (\<lambda>p q. rating p \<ge> rating q) (top_predictions k predictions)"
    by (simp add: sorted_wrt_map)
  have "prefix (filter (\<lambda>p. - rating p = - s) (top_predictions k predictions))
               (filter (\<lambda>p. - rating p = - s) predictions)"
    unfolding top_predictions_def by (rule takeOrdered_stable)
  then have 3: "prefix (filter (\<lambda>p. rating p = s) (top_predictions k predictions))
                 (filter (\<lambda>p. rating p = s) predictions)"
    by simp
  from 1 2 3 show ?thesis by blast
qed

text \<open>
  The theorem for user 8 of the notebook, who has seen the first of three books, with
  two predictions of equal rating and \<open>k = 20\<close>.
\<close>

theorem top_predictions_ranked_witness:
  "predictAll_of
      (unseen 8 (isbns_with_indices [''0439110246'', ''0756401836'', ''0425103528''])
         (books_for_them 8 [''0439110246'', ''0756401836'', ''0425103528'']
            [(8, ''0439110246'', 0)]))
      [\<lparr>user = 8, product = 2, rating = 1 / 2\<rparr>, \<lparr>user = 8, product = 1, rating = 1 / 2\<rparr>]
   \<and> list_all
       (\<lambda>p. product p \<notin> set (books_for_them 8 [''0439110246'', ''0756401836'', ''0425103528'']
            [(8, ''0439110246'', 0)]))
       (top_predictions 20
          [\<lparr>user = 8, product = 2, rating = 1 / 2\<rparr>, \<lparr>user = 8, product = 1, rating = 1 / 2\<rparr>])
   \<and> sorted_wrt (\<lambda>p q. rating p \<ge> rating q)
       (top_predictions 20
          [\<lparr>user = 8, product = 2, rating = 1 / 2\<rparr>, \<lparr>user = 8, product = 1, rating = 1 / 2\<rparr>])"
proof -
  have b: "books_for_them 8 [''0439110246'', ''0756401836'', ''0425103528'']
            [(8, ''0439110246'', 0)] = [0]"
    by (simp add: books_for_them_def users_books_def ratings_ones_def ratings_int_nice_def
        joined_def join_def reordered_ratings_def isbns_with_indices_def zipWithIndex_def
        upt_rec)
  have h: "predictAll_of
      (unseen 8 (isbns_with_indices [''0439110246'', ''0756401836'', ''0425103528''])
         (books_for_them 8 [''0439110246'', ''0756401836'', ''0425103528'']
            [(8, ''0439110246'', 0)]))
      [\<lparr>user = 8, product = 2, rating = 1 / 2\<rparr>, \<lparr>user = 8, product = 1, rating = 1 / 2\<rparr>]"
    unfolding b
    by (simp add: predictAll_of_def unseen_def isbns_with_indices_def zipWithIndex_def upt_rec)
  from top_predictions_ranked [OF h, of 20] h show ?thesis by blast
qed

text \<open>
  Claim C5 as stated fails in its last part: of two predictions of rating 1/2, delivered
  with item 2 before item 1, the top 20 has item 2 first. Ties are not in ascending
  order of the item index.
\<close>

theorem tie_order_counterexample:
  "map product (top_predictions 20
      [\<lparr>user = 8, product = 2, rating = 1 / 2\<rparr>, \<lparr>user = 8, product = 1, rating = 1 / 2\<rparr>])
     = [2, 1]
   \<and> map rating (top_predictions 20
      [\<lparr>user = 8, product = 2, rating = 1 / 2\<rparr>, \<lparr>user = 8, product = 1, rating = 1 / 2\<rparr>])
     = [1 / 2, 1 / 2]"
  by (simp add: top_predictions_def takeOrdered_def)

end
